theory Spec2Isabelle
  imports Complex_Main "HOL-Library.Sublist"
begin

section \<open>JavaScript values the model needs\<close>

text \<open>
  A JavaScript string is a sequence of code units. The model uses \<open>string\<close>
  (\<open>char list\<close>), so it covers the strings whose code units are below 256; \<open>length\<close>
  is then the JavaScript \<open>.length\<close>. A thrown exception (or a rejected promise of an
  \<open>async\<close> method, once awaited) is the \<open>Inl\<close> branch of a sum; a returned value (a
  fulfilled promise) is the \<open>Inr\<close> branch.
\<close>

datatype jserror = Error string | TypeError string | SyntaxError string

fun message :: "jserror \<Rightarrow> string" where
  "message (Error m) = m"
| "message (TypeError m) = m"
| "message (SyntaxError m) = m"

text \<open>\<open>String.prototype.includes\<close>: some suffix of the string starts with the argument.\<close>

fun includes_str :: "string \<Rightarrow> string \<Rightarrow> bool" where
  "includes_str [] sub = (sub = [])"
| "includes_str (c # cs) sub = (prefix sub (c # cs) \<or> includes_str cs sub)"

text \<open>
  \<open>String.prototype.toLowerCase\<close> on code units below 256: the ASCII capitals and the
  Latin-1 capitals (192 to 222, except the multiplication sign 215) move up by 32.
\<close>

definition toLowerCase_unit :: "char \<Rightarrow> char" where
  "toLowerCase_unit c =
     (let n = (of_char c :: nat)
      in if (65 \<le> n \<and> n \<le> 90) \<or> (192 \<le> n \<and> n \<le> 222 \<and> n \<noteq> 215)
         then char_of (n + 32) else c)"

definition toLowerCase :: "string \<Rightarrow> string" where
  "toLowerCase s = map toLowerCase_unit s"

text \<open>\<open>try { body } catch { handler }\<close> on results.\<close>

definition try_catch :: "jserror + 'a \<Rightarrow> (jserror \<Rightarrow> jserror + 'a) \<Rightarrow> jserror + 'a" where
  "try_catch body handler = (case body of Inl e \<Rightarrow> handler e | Inr v \<Rightarrow> Inr v)"

section \<open>The capability contract (\<open>src/ai/AIProvider.ts\<close>)\<close>

record AIAnalysisRequest =
  req_content :: string
  req_prompt :: string
  req_maxTokens :: "int option"
  req_temperature :: "rat option"

record AIAnalysisResponse =
  result :: string
  tokensUsed :: "int option"
  resp_model :: "string option"
  resp_provider :: string

record AIProviderConfig =
  provider :: string
  apiKey :: string
  model :: "string option"
  maxTokens :: "int option"
  temperature :: "rat option"

text \<open>
  The three adapter classes are constructed from the API key and the optional model
  (\<open>new OpenAIProvider(config.apiKey, config.model)\<close>).
\<close>

datatype AIProvider =
    OpenAIProvider string "string option"
  | AnthropicProvider string "string option"
  | GeminiProvider string "string option"

text \<open>
  Modelled from the spec: the adapter classes \<open>OpenAIProvider\<close>, \<open>AnthropicProvider\<close> and
  \<open>GeminiProvider\<close> are not among the sources; only the interface, the factory and the
  tests are. \<open>getProviderName\<close> is the canonical display name of the spec (section 4.1),
  which the factory's tests expect too.
\<close>

fun getProviderName :: "AIProvider \<Rightarrow> string" where
  "getProviderName (OpenAIProvider k m) = ''OpenAI''"
| "getProviderName (AnthropicProvider k m) = ''Anthropic''"
| "getProviderName (GeminiProvider k m) = ''Google Gemini''"

text \<open>
  Modelled from the spec: \<open>validateCredentials\<close> of an adapter (the adapter classes are
  not among the sources). Section 4.2: it issues one lightweight authenticated request
  and maps HTTP success to \<open>true\<close>, anything else, a thrown transport exception
  included, to \<open>false\<close>. The request is the parameter \<open>fetch\<close>: what the network
  answers to the probe of this adapter, an exception or a response with its \<open>ok\<close> flag.
\<close>

record http_response =
  ok :: bool
  statusText :: string

definition validateCredentials ::
  "(AIProvider \<Rightarrow> jserror + http_response) \<Rightarrow> AIProvider \<Rightarrow> jserror + bool" where
  "validateCredentials fetch p =
     try_catch (case fetch p of Inl e \<Rightarrow> Inl e | Inr response \<Rightarrow> Inr (ok response))
               (\<lambda>e. Inr False)"

section \<open>The factory (\<open>src/ai/AIProviderFactory.ts\<close>)\<close>

definition create :: "AIProviderConfig \<Rightarrow> jserror + AIProvider" where
  "create config =
     (if apiKey config = []
      then Inl (Error (''API key is required for '' @ provider config @ '' provider''))
      else (let p = toLowerCase (provider config)
            in if p = ''openai'' then Inr (OpenAIProvider (apiKey config) (model config))
               else if p = ''anthropic'' then Inr (AnthropicProvider (apiKey config) (model config))
               else if p = ''gemini'' then Inr (GeminiProvider (apiKey config) (model config))
               else Inl (Error (''Unknown AI provider: '' @ provider config
                                @ ''. Supported providers: openai, anthropic, gemini''))))"

definition getSupportedProviders :: "string list" where
  "getSupportedProviders = [''openai'', ''anthropic'', ''gemini'']"

text \<open>
  \<open>validateProvider\<close>: the adapter's own \<open>validateCredentials\<close> is the parameter \<open>vc\<close>,
  which may return a boolean or raise.
\<close>

definition validateProvider ::
  "(AIProvider \<Rightarrow> jserror + bool) \<Rightarrow> AIProviderConfig \<Rightarrow> jserror + bool" where
  "validateProvider vc config =
     try_catch (case create config of Inl e \<Rightarrow> Inl e | Inr p \<Rightarrow> vc p)
               (\<lambda>e. Inr False)"


section \<open>JavaScript values returned by \<open>JSON.parse\<close>\<close>

text \<open>
  A number is a rational (every finite double is one). An object is the list of its own
  properties, whose keys are distinct in a parsed object.
\<close>

datatype jsval =
    JUndefined
  | JNull
  | JBool bool
  | JNum rat
  | JStr string
  | JArr "jsval list"
  | JObj "(string \<times> jsval) list"

fun truthy :: "jsval \<Rightarrow> bool" where
  "truthy JUndefined = False"
| "truthy JNull = False"
| "truthy (JBool b) = b"
| "truthy (JNum n) = (n \<noteq> 0)"
| "truthy (JStr s) = (s \<noteq> [])"
| "truthy (JArr xs) = True"
| "truthy (JObj kvs) = True"

text \<open>The operator \<open>a || b\<close>: the left operand when it is truthy, the right one otherwise.\<close>

definition js_or :: "jsval \<Rightarrow> jsval \<Rightarrow> jsval" where
  "js_or a b = (if truthy a then a else b)"

text \<open>
  Reading a property, for the names the analyzer reads (\<open>score\<close>, \<open>suggestions\<close>,
  \<open>insights\<close>): \<open>null\<close> and \<open>undefined\<close> raise a \<open>TypeError\<close>, an object gives the
  property or \<open>undefined\<close>, and a boolean, number, string or array has no property of
  these names.
\<close>

fun get_prop :: "jsval \<Rightarrow> string \<Rightarrow> jserror + jsval" where
  "get_prop JUndefined k =
     Inl (TypeError (''Cannot read properties of undefined (reading '' @ [CHR 0x27] @ k
                     @ [CHR 0x27] @ '')''))"
| "get_prop JNull k =
     Inl (TypeError (''Cannot read properties of null (reading '' @ [CHR 0x27] @ k
                     @ [CHR 0x27] @ '')''))"
| "get_prop (JObj kvs) k = Inr (case map_of kvs k of None \<Rightarrow> JUndefined | Some v \<Rightarrow> v)"
| "get_prop v k = Inr JUndefined"

fun isArray :: "jsval \<Rightarrow> bool" where
  "isArray (JArr xs) = True"
| "isArray v = False"

fun array_items :: "jsval \<Rightarrow> jsval list" where
  "array_items (JArr xs) = xs"
| "array_items v = []"

text \<open>Sequencing of two steps, the second skipped when the first raises.\<close>

definition bind_result :: "jserror + 'a \<Rightarrow> ('a \<Rightarrow> jserror + 'b) \<Rightarrow> jserror + 'b" where
  "bind_result m f = (case m of Inl e \<Rightarrow> Inl e | Inr v \<Rightarrow> f v)"

text \<open>\<open>Array.prototype.join\<close> on strings.\<close>

fun join :: "string \<Rightarrow> string list \<Rightarrow> string" where
  "join sep [] = []"
| "join sep [x] = x"
| "join sep (x # y # ys) = x @ sep @ join sep (y # ys)"

section \<open>Regular expressions, as far as \<open>RegExp.prototype.test\<close> needs them\<close>

text \<open>
  The character classes of the source: \<open>.\<close> (no line terminator), \<open>\s\<close> (white space)
  and \<open>[\s\S]\<close> (any code unit), on code units below 256.
\<close>

datatype cls = Dot | Space | AnyChar

fun cls_match :: "cls \<Rightarrow> char \<Rightarrow> bool" where
  "cls_match Dot c = (c \<noteq> CHR 0x0A \<and> c \<noteq> CHR 0x0D)"
| "cls_match Space c =
     (c = CHR 0x09 \<or> c = CHR 0x0A \<or> c = CHR 0x0B \<or> c = CHR 0x0C \<or> c = CHR 0x0D
      \<or> c = CHR 0x20 \<or> c = CHR 0xA0)"
| "cls_match AnyChar c = True"

datatype regex =
    Lit string
  | Cls cls
  | Bol
  | Seq regex regex
  | Alt regex regex
  | Star regex

definition Plus :: "regex \<Rightarrow> regex" where
  "Plus r = Seq r (Star r)"

fun seq :: "regex list \<Rightarrow> regex" where
  "seq [] = Lit []"
| "seq [r] = r"
| "seq (r # rs) = Seq r (seq rs)"

text \<open>
  The flag \<open>i\<close> compares canonical forms: the upper-case code unit. Below 256 these are
  the ASCII letters and the Latin-1 letters 224 to 254 (except the division sign 247);
  the other code units have a canonical form that no other code unit below 256 shares.
\<close>

definition canonicalize :: "char \<Rightarrow> char" where
  "canonicalize c =
     (let n = (of_char c :: nat)
      in if (97 \<le> n \<and> n \<le> 122) \<or> (224 \<le> n \<and> n \<le> 254 \<and> n \<noteq> 247)
         then char_of (n - 32) else c)"

definition chars_eq :: "bool \<Rightarrow> char \<Rightarrow> char \<Rightarrow> bool" where
  "chars_eq i a c = (if i then canonicalize a = canonicalize c else a = c)"

text \<open>\<open>^\<close> under the flag \<open>m\<close>: at the start of the input or after a line terminator.\<close>

fun at_line_start :: "char option \<Rightarrow> bool" where
  "at_line_start None = True"
| "at_line_start (Some c) = (c = CHR 0x0A \<or> c = CHR 0x0D)"

text \<open>
  A position is the code unit before it (if any) and the rest of the input. \<open>rmatch\<close>
  lists the positions where a match of the expression that starts at the given position
  can end; \<open>test\<close> only asks whether there is one, so greedy and lazy repetition agree.
  An iteration of a repetition that consumes nothing is dropped, as in ECMAScript.
\<close>

function rmatch ::
  "bool \<Rightarrow> regex \<Rightarrow> char option \<times> string \<Rightarrow> (char option \<times> string) list" where
  "rmatch i (Lit []) st = [st]"
| "rmatch i (Lit (a # l)) (p, []) = []"
| "rmatch i (Lit (a # l)) (p, c # s) =
     (if chars_eq i a c then rmatch i (Lit l) (Some c, s) else [])"
| "rmatch i (Cls k) (p, []) = []"
| "rmatch i (Cls k) (p, c # s) = (if cls_match k c then [(Some c, s)] else [])"
| "rmatch i Bol (p, s) = (if at_line_start p then [(p, s)] else [])"
| "rmatch i (Seq r1 r2) st = concat (map (rmatch i r2) (rmatch i r1 st))"
| "rmatch i (Alt r1 r2) st = rmatch i r1 st @ rmatch i r2 st"
| "rmatch i (Star r) st =
     st # concat (map (rmatch i (Star r))
                      (filter (\<lambda>st'. length (snd st') < length (snd st)) (rmatch i r st)))"
  by pat_completeness auto
termination
  by (relation "inv_image (less_than <*lex*> less_than <*lex*> less_than)
        (\<lambda>(i, r, st). (size r, length (snd st), case r of Lit l \<Rightarrow> length l | _ \<Rightarrow> 0))")
     auto

fun search :: "bool \<Rightarrow> regex \<Rightarrow> char option \<Rightarrow> string \<Rightarrow> bool" where
  "search i r p [] = (rmatch i r (p, []) \<noteq> [])"
| "search i r p (c # s) = (rmatch i r (p, c # s) \<noteq> [] \<or> search i r (Some c) s)"

text \<open>\<open>regex.test(s)\<close>, with the flag \<open>i\<close> as the first argument.\<close>

definition regex_test :: "bool \<Rightarrow> regex \<Rightarrow> string \<Rightarrow> bool" where
  "regex_test i r s = search i r None s"

section \<open>The analyzer (\<open>AIAnalyzer\<close>)\<close>

record roadmap_context =
  technologies :: "string list"
  lastUpdate :: "int option"
  hasTests :: bool
  hasCICD :: bool

text \<open>
  \<open>lastUpdate\<close> is the time value of the \<open>Date\<close> in milliseconds, \<open>None\<close> for an invalid
  date (whose \<open>getTime()\<close> is \<open>NaN\<close>).

  What the analyzer takes from outside the repository is a parameter of the model: the
  answer of the adapter's \<open>analyze\<close> (a response or an exception), the built-ins
  \<open>JSON.parse\<close> and \<open>JSON.stringify\<close>, and the clock reading \<open>Date.now()\<close>.
\<close>

record runtime =
  analyze :: "AIProvider \<Rightarrow> AIAnalysisRequest \<Rightarrow> jserror + AIAnalysisResponse"
  JSON_parse :: "string \<Rightarrow> jserror + jsval"
  JSON_stringify :: "roadmap_context \<Rightarrow> string"
  Date_now :: int

record AIAnalyzer =
  aiProvider :: "AIProvider option"

record readme_analysis =
  qualityScore :: jsval
  suggestions :: jsval

record quality_analysis =
  insights :: jsval
  architectureScore :: jsval

text \<open>The constructor: an adapter is created only for a configuration with a non-empty key.\<close>

definition AIAnalyzer_new :: "AIProviderConfig option \<Rightarrow> jserror + AIAnalyzer" where
  "AIAnalyzer_new aiConfig =
     (case aiConfig of
        None \<Rightarrow> Inr \<lparr>aiProvider = None\<rparr>
      | Some c \<Rightarrow>
          if apiKey c \<noteq> []
          then bind_result (create c) (\<lambda>p. Inr \<lparr>aiProvider = Some p\<rparr>)
          else Inr \<lparr>aiProvider = None\<rparr>)"

definition isAIAvailable :: "AIAnalyzer \<Rightarrow> bool" where
  "isAIAvailable this = (aiProvider this \<noteq> None)"

subsection \<open>The heuristic fallbacks\<close>

definition calculateBasicReadmeScore :: "string \<Rightarrow> int" where
  "calculateBasicReadmeScore content =
     (let score = 0;
          score = (if length content > 500 then score + 20 else score);
          score = (if length content > 1500 then score + 10 else score);
          score = (if regex_test True (Lit ''installation'') content then score + 15 else score);
          score = (if regex_test True (Lit ''usage'') content then score + 15 else score);
          score = (if regex_test True (Lit ''example'') content then score + 10 else score);
          score = (if regex_test True (Alt (Lit ''api'') (Lit ''reference'')) content
                   then score + 10 else score);
          score = (if regex_test True (Lit ''contributing'') content then score + 10 else score);
          score = (if regex_test True (Lit ''license'') content then score + 10 else score)
      in min score 100)"

text \<open>
  \<open>Math.floor((Date.now() - lastUpdate.getTime()) / (1000 * 60 * 60 * 24))\<close>; \<open>None\<close> is
  \<open>NaN\<close>. Both times are integers that a double holds exactly, the quotient is rounded
  monotonically and 181 is a double, so the test \<open>> 180\<close> is decided as on the integers.
\<close>

definition daysSinceUpdate :: "int \<Rightarrow> roadmap_context \<Rightarrow> int option" where
  "daysSinceUpdate now context =
     map_option (\<lambda>t. (now - t) div (1000 * 60 * 60 * 24)) (lastUpdate context)"

definition generateBasicRoadmap :: "int \<Rightarrow> roadmap_context \<Rightarrow> string list" where
  "generateBasicRoadmap now context =
     (let roadmap = [];
          roadmap = (if \<not> hasTests context
                     then roadmap @ [''Immediate: Add automated testing (Jest/Mocha)'']
                     else roadmap);
          roadmap = (if \<not> hasCICD context
                     then roadmap @ [''Immediate: Set up CI/CD with GitHub Actions'']
                     else roadmap);
          roadmap = (if (case daysSinceUpdate now context of None \<Rightarrow> False | Some d \<Rightarrow> d > 180)
                     then roadmap @ [''Short-term: Update dependencies to latest versions'']
                     else roadmap);
          roadmap = roadmap @ [''Long-term: Implement comprehensive documentation''];
          roadmap = roadmap @ [''Long-term: Increase test coverage to 80%+'']
      in roadmap)"

subsection \<open>The analysis operations\<close>

definition readme_prompt :: string where
  \<open>readme_prompt =
     ''You are a technical documentation expert. Analyze this README.md and provide:\<newline>''
     @ ''1. A quality score from 0-100\<newline>''
     @ ''2. 3-5 specific suggestions for improvement\<newline>''
     @ ''\<newline>''
     @ ''Focus on: clarity, completeness, installation instructions, usage examples, and project description.\<newline>''
     @ ''\<newline>''
     @ ''Return ONLY a JSON object with this structure:\<newline>''
     @ ''{\<newline>''
     @ ''  "score": <number>,\<newline>''
     @ ''  "suggestions": ["suggestion 1", "suggestion 2", ...]\<newline>''
     @ ''}''\<close>

definition quality_prompt :: string where
  \<open>quality_prompt =
     ''You are a senior software architect. Analyze this code snapshot and provide:\<newline>''
     @ ''1. An architecture quality score from 0-100\<newline>''
     @ ''2. 3-5 key insights about code quality, patterns, and architecture\<newline>''
     @ ''\<newline>''
     @ ''Return ONLY a JSON object:\<newline>''
     @ ''{\<newline>''
     @ ''  "score": <number>,\<newline>''
     @ ''  "insights": ["insight 1", "insight 2", ...]\<newline>''
     @ ''}''\<close>

definition security_prompt :: string where
  \<open>security_prompt =
     ''You are a security expert. Review this code for potential security issues.\<newline>''
     @ ''List 3-5 security concerns (or "None found" if code looks secure).\<newline>''
     @ ''\<newline>''
     @ ''Return ONLY a JSON array of strings:\<newline>''
     @ ''["concern 1", "concern 2", ...]''\<close>

definition roadmap_prompt :: "string \<Rightarrow> string" where
  \<open>roadmap_prompt contextStr =
     ''You are a technology modernization consultant. Based on this project context:\<newline>''
     @ contextStr @
     ''\<newline>''
     @ ''\<newline>''
     @ ''Provide 3-5 prioritized modernization steps (immediate, short-term, long-term).\<newline>''
     @ ''\<newline>''
     @ ''Return ONLY a JSON array of strings:\<newline>''
     @ ''["step 1", "step 2", ...]''\<close>

definition analyzeReadme :: "runtime \<Rightarrow> AIAnalyzer \<Rightarrow> string \<Rightarrow> jserror + readme_analysis" where
  "analyzeReadme rt this readmeContent =
     (case aiProvider this of
        None \<Rightarrow> Inl (Error ''AI provider not configured'')
      | Some ai \<Rightarrow>
          try_catch
            (bind_result
               (analyze rt ai \<lparr>req_content = readmeContent, req_prompt = readme_prompt,
                               req_maxTokens = Some 1000, req_temperature = Some (5 / 10)\<rparr>)
               (\<lambda>response. bind_result (JSON_parse rt (result response))
               (\<lambda>res. bind_result (get_prop res ''score'')
               (\<lambda>score. bind_result (get_prop res ''suggestions'')
               (\<lambda>sugg. Inr \<lparr>qualityScore = js_or score (JNum 50),
                              suggestions = js_or sugg (JArr [])\<rparr>)))))
            (\<lambda>error. Inr \<lparr>qualityScore = JNum (of_int (calculateBasicReadmeScore readmeContent)),
                           suggestions = JArr []\<rparr>))"

text \<open>A file is its path and its content.\<close>

definition codeSnapshot_of_files :: "(string \<times> string) list \<Rightarrow> string" where
  "codeSnapshot_of_files files =
     join ''\<newline>\<newline>---\<newline>\<newline>''
       (map (\<lambda>(path, text). ''// '' @ path @ ''\<newline>'' @ take 500 text) (take 5 files))"

definition analyzeCodeQuality ::
  "runtime \<Rightarrow> AIAnalyzer \<Rightarrow> (string \<times> string) list \<Rightarrow> jserror + quality_analysis" where
  "analyzeCodeQuality rt this files =
     (case aiProvider this of
        None \<Rightarrow> Inl (Error ''AI provider not configured'')
      | Some ai \<Rightarrow>
          try_catch
            (bind_result
               (analyze rt ai \<lparr>req_content = codeSnapshot_of_files files, req_prompt = quality_prompt,
                               req_maxTokens = Some 800, req_temperature = Some (3 / 10)\<rparr>)
               (\<lambda>response. bind_result (JSON_parse rt (result response))
               (\<lambda>res. bind_result (get_prop res ''insights'')
               (\<lambda>ins. bind_result (get_prop res ''score'')
               (\<lambda>score. Inr \<lparr>insights = js_or ins (JArr []),
                               architectureScore = js_or score (JNum 70)\<rparr>)))))
            (\<lambda>error. Inr \<lparr>insights = JArr [], architectureScore = JNum 70\<rparr>))"

definition analyzeSecurityConcerns ::
  "runtime \<Rightarrow> AIAnalyzer \<Rightarrow> string list \<Rightarrow> jserror + jsval list" where
  "analyzeSecurityConcerns rt this codeSnippets =
     (case aiProvider this of
        None \<Rightarrow> Inr []
      | Some ai \<Rightarrow>
          try_catch
            (bind_result
               (analyze rt ai \<lparr>req_content = join ''\<newline>\<newline>---\<newline>\<newline>'' (take 3 codeSnippets),
                               req_prompt = security_prompt,
                               req_maxTokens = Some 500, req_temperature = Some (2 / 10)\<rparr>)
               (\<lambda>response. bind_result (JSON_parse rt (result response))
               (\<lambda>concerns. Inr (if isArray concerns then array_items concerns else []))))
            (\<lambda>error. Inr []))"

definition generateModernizationRoadmap ::
  "runtime \<Rightarrow> AIAnalyzer \<Rightarrow> roadmap_context \<Rightarrow> jserror + jsval list" where
  "generateModernizationRoadmap rt this context =
     (case aiProvider this of
        None \<Rightarrow> Inr (map JStr (generateBasicRoadmap (Date_now rt) context))
      | Some ai \<Rightarrow>
          (let contextStr = JSON_stringify rt context
           in try_catch
                (bind_result
                   (analyze rt ai \<lparr>req_content = contextStr, req_prompt = roadmap_prompt contextStr,
                                   req_maxTokens = Some 600, req_temperature = Some (6 / 10)\<rparr>)
                   (\<lambda>response. bind_result (JSON_parse rt (result response))
                   (\<lambda>roadmap. Inr (if isArray roadmap then array_items roadmap
                                    else map JStr (generateBasicRoadmap (Date_now rt) context)))))
                (\<lambda>error. Inr (map JStr (generateBasicRoadmap (Date_now rt) context)))))"

section \<open>The documentation analyzer (\<open>DocumentationAnalyzer\<close>)\<close>

definition hasTitle :: "string \<Rightarrow> bool" where
  "hasTitle content =
     regex_test False (seq [Bol, Lit ''#'', Plus (Cls Space), Plus (Cls Dot)]) content"

definition hasInstallationSection :: "string \<Rightarrow> bool" where
  "hasInstallationSection content =
     regex_test True
       (seq [Lit ''##'', Plus (Cls Space),
             Alt (Lit ''Installation'') (Alt (Lit ''Install'') (Lit ''Setup''))]) content"

definition hasUsageSection :: "string \<Rightarrow> bool" where
  "hasUsageSection content =
     regex_test True
       (seq [Lit ''##'', Plus (Cls Space),
             Alt (Lit ''Usage'')
               (Alt (Lit ''Example'') (seq [Lit ''Quick'', Plus (Cls Space), Lit ''Start'']))])
       content"

definition hasCodeExamples :: "string \<Rightarrow> bool" where
  "hasCodeExamples content =
     regex_test False (seq [Lit ''```'', Star (Cls AnyChar), Lit ''```'']) content"

definition hasLinks :: "string \<Rightarrow> bool" where
  "hasLinks content =
     regex_test False
       (seq [Lit ''['', Plus (Cls Dot), Lit '']'', Lit ''('', Plus (Cls Dot), Lit '')'']) content"

definition hasBadges :: "string \<Rightarrow> bool" where
  "hasBadges content =
     regex_test False
       (seq [Lit ''!'', Lit ''['', Star (Cls Dot), Lit '']'', Lit ''('', Star (Cls Dot), Lit '')''])
       content"

text \<open>\<open>content\<close> is \<open>string | null\<close>; \<open>!content\<close> holds for \<open>null\<close> and for the empty string.\<close>

definition calculateReadmeQuality :: "string option \<Rightarrow> int" where
  "calculateReadmeQuality content =
     (case content of
        None \<Rightarrow> 0
      | Some c \<Rightarrow>
          if c = [] then 0
          else (let score = 0;
                    maxScore = 100;
                    score = (if length c \<ge> 500 then score + 20
                             else if length c \<ge> 200 then score + 10 else score);
                    score = (if hasTitle c then score + 10 else score);
                    score = (if length c > 100 then score + 10 else score);
                    score = (if hasInstallationSection c then score + 15 else score);
                    score = (if hasUsageSection c then score + 15 else score);
                    score = (if hasCodeExamples c then score + 10 else score);
                    score = (if hasLinks c then score + 10 else score);
                    score = (if hasBadges c then score + 10 else score)
                in min score maxScore))"

record DocumentationAnalyzer =
  aiAnalyzer :: "AIAnalyzer option"

definition DocumentationAnalyzer_new ::
  "AIProviderConfig option \<Rightarrow> jserror + DocumentationAnalyzer" where
  "DocumentationAnalyzer_new aiConfig =
     (case aiConfig of
        None \<Rightarrow> Inr \<lparr>aiAnalyzer = None\<rparr>
      | Some c \<Rightarrow>
          if apiKey c \<noteq> []
          then bind_result (AIAnalyzer_new aiConfig) (\<lambda>a. Inr \<lparr>aiAnalyzer = Some a\<rparr>)
          else Inr \<lparr>aiAnalyzer = None\<rparr>)"

text \<open>
  The \<open>readmeQuality\<close> that \<open>analyze\<close> computes from the content of \<open>README.md\<close> (which
  the GitHub client returns, \<open>null\<close> when there is none).
\<close>

definition analyze_readmeQuality ::
  "runtime \<Rightarrow> DocumentationAnalyzer \<Rightarrow> string option \<Rightarrow> jsval" where
  "analyze_readmeQuality rt this readmeContent =
     (case (readmeContent, aiAnalyzer this) of
        (Some c, Some a) \<Rightarrow>
          if c \<noteq> [] \<and> isAIAvailable a
          then (case analyzeReadme rt a c of
                  Inr aiResult \<Rightarrow> qualityScore aiResult
                | Inl error \<Rightarrow> JNum (of_int (calculateReadmeQuality readmeContent)))
          else JNum (of_int (calculateReadmeQuality readmeContent))
      | _ \<Rightarrow> JNum (of_int (calculateReadmeQuality readmeContent)))"

section \<open>Notions used to state the properties\<close>

text \<open>
  A provider name "in any letter case": the same letters as the lower-case name, each
  one either as it is or as its ASCII capital.
\<close>

definition is_lower_ascii :: "char \<Rightarrow> bool" where
  "is_lower_ascii d = (97 \<le> (of_char d :: nat) \<and> (of_char d :: nat) \<le> 122)"

definition toUpper_ascii :: "char \<Rightarrow> char" where
  "toUpper_ascii d = char_of ((of_char d :: nat) - 32)"

definition letter_case_variant :: "string \<Rightarrow> string \<Rightarrow> bool" where
  "letter_case_variant s name = list_all2 (\<lambda>c d. c = d \<or> c = toUpper_ascii d) s name"

definition config_unknown_nokey :: AIProviderConfig where
  "config_unknown_nokey =
     \<lparr>provider = ''unknown'', apiKey = [], model = None, maxTokens = None, temperature = None\<rparr>"

definition config_OpenAI :: AIProviderConfig where
  "config_OpenAI =
     \<lparr>provider = ''OpenAI'', apiKey = ''test-key'', model = None, maxTokens = None,
      temperature = None\<rparr>"

text \<open>The request that \<open>analyzeReadme\<close> sends for a given content.\<close>

definition readme_request :: "string \<Rightarrow> AIAnalysisRequest" where
  "readme_request readmeContent =
     \<lparr>req_content = readmeContent, req_prompt = readme_prompt,
      req_maxTokens = Some 1000, req_temperature = Some (5 / 10)\<rparr>"

text \<open>The last update is more than 180 whole days before the clock reading.\<close>

definition update_overdue :: "int \<Rightarrow> roadmap_context \<Rightarrow> bool" where
  "update_overdue now context =
     (case lastUpdate context of None \<Rightarrow> False | Some t \<Rightarrow> (now - t) div 86400000 > 180)"

text \<open>The points of one condition of a rubric.\<close>

definition pts :: "bool \<Rightarrow> int \<Rightarrow> int" where
  "pts b n = (if b then n else 0)"

text \<open>The code units as the flag \<open>i\<close> compares them.\<close>

definition fold_case :: "bool \<Rightarrow> string \<Rightarrow> string" where
  "fold_case i s = (if i then map canonicalize s else s)"

text \<open>The text contains the word, letter case ignored.\<close>

definition mentions :: "string \<Rightarrow> string \<Rightarrow> bool" where
  "mentions text w = includes_str (map canonicalize text) (map canonicalize w)"

text \<open>
  The conditions that the specification lists for the README fallback score: the two
  length thresholds, a top-level heading, an installation or setup section, a usage or
  example section, a fenced code block, a hyperlink and a badge image.
\<close>

definition spec_readme_conditions :: "string \<Rightarrow> bool list" where
  "spec_readme_conditions c =
     [500 \<le> length c, 200 \<le> length c, hasTitle c, hasInstallationSection c,
      hasUsageSection c, hasCodeExamples c, hasLinks c, hasBadges c]"

fun nullish :: "jsval \<Rightarrow> bool" where
  "nullish JNull = True"
| "nullish JUndefined = True"
| "nullish v = False"

subsection \<open>Example inputs\<close>

text \<open>
  \<open>JSON.parse\<close> on the response texts of the examples below: for each of the five
  JSON texts it gives the value that \<open>JSON.parse\<close> gives. Any other text is taken as
  malformed; the examples use one such text, \<open>Service unavailable\<close>, which
  \<open>JSON.parse\<close> rejects with a \<open>SyntaxError\<close>.
\<close>

definition JSON_parse_examples :: "string \<Rightarrow> jserror + jsval" where
  \<open>JSON_parse_examples s =
     (if s = ''null'' then Inr JNull
      else if s = ''{}'' then Inr (JObj [])
      else if s = ''[]'' then Inr (JArr [])
      else if s = ''{"score": 0}'' then Inr (JObj [(''score'', JNum 0)])
      else if s = ''{"score": 85, "suggestions": ["Add usage examples"]}''
      then Inr (JObj [(''score'', JNum 85), (''suggestions'', JArr [JStr ''Add usage examples''])])
      else Inl (SyntaxError ''Unexpected token''))\<close>

definition response_of :: "string \<Rightarrow> AIAnalysisResponse" where
  "response_of text =
     \<lparr>result = text, tokensUsed = None, resp_model = None, resp_provider = ''OpenAI''\<rparr>"

text \<open>A runtime whose adapter answers every request with the given text.\<close>

definition runtime_answering :: "string \<Rightarrow> runtime" where
  "runtime_answering text =
     \<lparr>analyze = (\<lambda>p r. Inr (response_of text)), JSON_parse = JSON_parse_examples,
      JSON_stringify = (\<lambda>c. ''{}''), Date_now = 0\<rparr>"

text \<open>A runtime whose adapter calls all fail.\<close>

definition runtime_down :: runtime where
  "runtime_down =
     \<lparr>analyze = (\<lambda>p r. Inl (Error ''OpenAI analysis failed: Service unavailable'')),
      JSON_parse = JSON_parse_examples, JSON_stringify = (\<lambda>c. ''{}''), Date_now = 0\<rparr>"

definition analyzer_unconfigured :: AIAnalyzer where
  "analyzer_unconfigured = \<lparr>aiProvider = None\<rparr>"

definition analyzer_openai :: AIAnalyzer where
  "analyzer_openai = \<lparr>aiProvider = Some (OpenAIProvider ''test-key'' None)\<rparr>"

definition context_old :: roadmap_context where
  "context_old =
     \<lparr>technologies = [''javascript''], lastUpdate = Some 0, hasTests = True, hasCICD = True\<rparr>"

definition context_bare :: roadmap_context where
  "context_bare =
     \<lparr>technologies = [''javascript'', ''node''], lastUpdate = Some 0, hasTests = False,
      hasCICD = False\<rparr>"

section \<open>Strings\<close>

lemma includes_str_prefix: "includes_str (p @ s) p"
proof (cases "p @ s")
  case Nil
  then show ?thesis by simp
next
  case (Cons a l)
  have "prefix p (p @ s)" by simp
  with Cons show ?thesis by simp
qed

lemma includes_str_iff_sublist: "includes_str s sub \<longleftrightarrow> sublist sub s"
  by (induction s) (auto simp: sublist_Cons_right)

lemma char_of_nat_eq_iff: "n < 256 \<Longrightarrow> (char_of (n::nat) = d) = (n = of_char d)"
  by (simp add: char_of_eq_iff take_bit_eq_mod)

text \<open>Only a lower-case ASCII letter and its capital are lowered to that letter.\<close>

lemma toLowerCase_unit_lower:
  assumes "is_lower_ascii d"
  shows "toLowerCase_unit c = d \<longleftrightarrow> c = d \<or> c = toUpper_ascii d"
proof -
  let ?n = "of_char c :: nat" and ?m = "of_char d :: nat"
  have m: "97 \<le> ?m" "?m \<le> 122" using assms by (auto simp: is_lower_ascii_def)
  have n: "?n < 256" by simp
  have cd: "c = d \<longleftrightarrow> ?n = ?m" by simp
  have up: "c = toUpper_ascii d \<longleftrightarrow> ?n = ?m - 32"
    unfolding toUpper_ascii_def using m char_of_nat_eq_iff[of "?m - 32" c] by auto
  have low: "?n + 32 < 256 \<Longrightarrow> char_of (?n + 32) = d \<longleftrightarrow> ?n + 32 = ?m"
    by (rule char_of_nat_eq_iff)
  show ?thesis
    unfolding up toLowerCase_unit_def Let_def
    using m n low cd by (auto simp del: of_char_eq_iff)
qed

lemma toLowerCase_eq_iff:
  "list_all is_lower_ascii name \<Longrightarrow> toLowerCase s = name \<longleftrightarrow> letter_case_variant s name"
  unfolding toLowerCase_def letter_case_variant_def
proof (induction s arbitrary: name)
  case Nil
  then show ?case by auto
next
  case (Cons c s)
  then show ?case by (cases name) (auto simp: toLowerCase_unit_lower)
qed

lemma lower_names:
  "list_all is_lower_ascii ''openai''"
  "list_all is_lower_ascii ''anthropic''"
  "list_all is_lower_ascii ''gemini''"
  by (simp_all add: is_lower_ascii_def)

section \<open>The factory\<close>

text \<open>
  C7. \<open>create\<close> with an empty API key fails with a message that contains
  "API key is required", whatever the provider value is: the key is checked before the
  dispatch on the provider.
\<close>

theorem create_empty_apiKey:
  "apiKey config = [] \<Longrightarrow>
     create config = Inl (Error (''API key is required for '' @ provider config @ '' provider''))
     \<and> (\<exists>e. create config = Inl e \<and> includes_str (message e) ''API key is required'')"
  unfolding create_def
  using includes_str_prefix[of "''API key is required''" "'' for '' @ provider config @ '' provider''"]
  by simp

theorem create_empty_apiKey_witness:
  "apiKey config_unknown_nokey = []
   \<and> create config_unknown_nokey = Inl (Error ''API key is required for unknown provider'')"
  using create_empty_apiKey[of config_unknown_nokey]
  by (simp add: config_unknown_nokey_def)

text \<open>
  C8. With a non-empty API key, a supported provider name in any letter case gives the
  matching adapter, whose \<open>getProviderName\<close> is the documented display name; any other
  provider value fails with "Unknown AI provider: <value>. Supported providers: openai,
  anthropic, gemini".
\<close>

theorem create_dispatch:
  assumes "apiKey config \<noteq> []"
  shows "(letter_case_variant (provider config) ''openai'' \<longrightarrow>
           (\<exists>a. create config = Inr a \<and> a = OpenAIProvider (apiKey config) (model config)
                \<and> getProviderName a = ''OpenAI''))
       \<and> (letter_case_variant (provider config) ''anthropic'' \<longrightarrow>
           (\<exists>a. create config = Inr a \<and> a = AnthropicProvider (apiKey config) (model config)
                \<and> getProviderName a = ''Anthropic''))
       \<and> (letter_case_variant (provider config) ''gemini'' \<longrightarrow>
           (\<exists>a. create config = Inr a \<and> a = GeminiProvider (apiKey config) (model config)
                \<and> getProviderName a = ''Google Gemini''))
       \<and> (\<not> letter_case_variant (provider config) ''openai''
           \<and> \<not> letter_case_variant (provider config) ''anthropic''
           \<and> \<not> letter_case_variant (provider config) ''gemini'' \<longrightarrow>
           create config = Inl (Error (''Unknown AI provider: '' @ provider config
                                       @ ''. Supported providers: openai, anthropic, gemini'')))"
  using assms
  by (simp add: create_def Let_def
      toLowerCase_eq_iff[OF lower_names(1), symmetric]
      toLowerCase_eq_iff[OF lower_names(2), symmetric]
      toLowerCase_eq_iff[OF lower_names(3), symmetric])

theorem create_dispatch_witness:
  "apiKey config_OpenAI \<noteq> [] \<and> letter_case_variant (provider config_OpenAI) ''openai''
   \<and> create config_OpenAI = Inr (OpenAIProvider ''test-key'' None)
   \<and> apiKey (config_OpenAI\<lparr>provider := ''unknown''\<rparr>) \<noteq> []
   \<and> \<not> letter_case_variant ''unknown'' ''openai''
   \<and> \<not> letter_case_variant ''unknown'' ''anthropic''
   \<and> \<not> letter_case_variant ''unknown'' ''gemini''
   \<and> create (config_OpenAI\<lparr>provider := ''unknown''\<rparr>)
       = Inl (Error ''Unknown AI provider: unknown. Supported providers: openai, anthropic, gemini'')"
proof -
  have k: "apiKey config_OpenAI \<noteq> []" "apiKey (config_OpenAI\<lparr>provider := ''unknown''\<rparr>) \<noteq> []"
    by (simp_all add: config_OpenAI_def)
  have v: "letter_case_variant (provider config_OpenAI) ''openai''"
    unfolding config_OpenAI_def by code_simp
  have u: "\<not> letter_case_variant ''unknown'' ''openai''"
    "\<not> letter_case_variant ''unknown'' ''anthropic''"
    "\<not> letter_case_variant ''unknown'' ''gemini''"
    by (simp_all add: letter_case_variant_def)
  show ?thesis
    using create_dispatch[OF k(1)] create_dispatch[OF k(2)] k v u
    by (simp add: config_OpenAI_def)
qed

text \<open>
  C9. \<open>validateProvider\<close> never raises: it returns \<open>false\<close> when the construction fails
  (unknown provider, missing key) or when the adapter's \<open>validateCredentials\<close> raises, and
  the result of \<open>validateCredentials\<close> otherwise.
\<close>

theorem validateProvider_never_raises:
  "validateProvider vc config =
     Inr (case create config of
            Inl e \<Rightarrow> False
          | Inr p \<Rightarrow> (case vc p of Inl e \<Rightarrow> False | Inr b \<Rightarrow> b))"
  by (simp add: validateProvider_def try_catch_def split: sum.splits)

theorem validateProvider_never_raises_witness:
  "validateProvider (\<lambda>p. Inl (Error ''Network error'')) config_OpenAI = Inr False
   \<and> validateProvider (\<lambda>p. Inr True) config_OpenAI = Inr True
   \<and> validateProvider (\<lambda>p. Inr True) config_unknown_nokey = Inr False"
proof -
  have c: "create config_OpenAI = Inr (OpenAIProvider ''test-key'' None)"
    "create config_unknown_nokey = Inl (Error ''API key is required for unknown provider'')"
    by code_simp+
  show ?thesis
    using validateProvider_never_raises[of "\<lambda>p. Inl (Error ''Network error'')" config_OpenAI]
      validateProvider_never_raises[of "\<lambda>p. Inr True" config_OpenAI]
      validateProvider_never_raises[of "\<lambda>p. Inr True" config_unknown_nokey]
    by (simp add: c)
qed

section \<open>The adapters\<close>

text \<open>
  C6. For every adapter \<open>validateCredentials\<close> never raises: it returns \<open>true\<close> exactly
  when the probe is answered with a successful response, and \<open>false\<close> in every other
  case, a non-success response or a thrown transport exception.
\<close>

theorem validateCredentials_never_raises:
  "validateCredentials fetch p =
     Inr (case fetch p of Inl e \<Rightarrow> False | Inr response \<Rightarrow> ok response)"
  by (simp add: validateCredentials_def try_catch_def split: sum.splits)

theorem validateCredentials_never_raises_witness:
  "validateCredentials (\<lambda>p. Inr \<lparr>ok = True, statusText = ''OK''\<rparr>)
      (OpenAIProvider ''test-api-key'' None) = Inr True
   \<and> validateCredentials (\<lambda>p. Inr \<lparr>ok = False, statusText = ''Unauthorized''\<rparr>)
      (OpenAIProvider ''test-api-key'' None) = Inr False
   \<and> validateCredentials (\<lambda>p. Inl (Error ''Network error''))
      (OpenAIProvider ''test-api-key'' None) = Inr False"
  using validateCredentials_never_raises[of "\<lambda>p. Inr \<lparr>ok = True, statusText = ''OK''\<rparr>"
        "OpenAIProvider ''test-api-key'' None"]
    validateCredentials_never_raises[of "\<lambda>p. Inr \<lparr>ok = False, statusText = ''Unauthorized''\<rparr>"
        "OpenAIProvider ''test-api-key'' None"]
    validateCredentials_never_raises[of "\<lambda>p. Inl (Error ''Network error'')"
        "OpenAIProvider ''test-api-key'' None"]
  by simp

section \<open>Regular expressions\<close>

lemma rmatch_Lit:
  "rmatch i (Lit w) (p, s) \<noteq> [] \<longleftrightarrow> prefix (fold_case i w) (fold_case i s)"
proof (induction w arbitrary: p s)
  case Nil
  then show ?case by (simp add: fold_case_def)
next
  case (Cons a w)
  show ?case
  proof (cases s)
    case Nil
    then show ?thesis by (simp add: fold_case_def)
  next
    case (Cons c t)
    with Cons.IH[of "Some c" t] show ?thesis
      by (auto simp: fold_case_def chars_eq_def)
  qed
qed

lemma search_Lit:
  "search i (Lit w) p s \<longleftrightarrow> includes_str (fold_case i s) (fold_case i w)"
proof (induction s arbitrary: p)
  case Nil
  then show ?case using rmatch_Lit[of i w p "[]"] by (simp add: fold_case_def)
next
  case (Cons c s)
  have "includes_str (fold_case i (c # s)) (fold_case i w)
        \<longleftrightarrow> prefix (fold_case i w) (fold_case i (c # s))
            \<or> includes_str (fold_case i s) (fold_case i w)"
    by (simp add: fold_case_def)
  then show ?case using Cons[of "Some c"] rmatch_Lit[of i w p "c # s"] by simp
qed

text \<open>A literal under the flag \<open>i\<close> tests for the word, letter case ignored.\<close>

lemma regex_test_Lit_i: "regex_test True (Lit w) s \<longleftrightarrow> mentions s w"
  by (simp add: regex_test_def search_Lit mentions_def fold_case_def)

lemma search_Alt: "search i (Alt r1 r2) p s \<longleftrightarrow> search i r1 p s \<or> search i r2 p s"
  by (induction s arbitrary: p) auto

lemma regex_test_Alt:
  "regex_test i (Alt r1 r2) s \<longleftrightarrow> regex_test i r1 s \<or> regex_test i r2 s"
  by (simp add: regex_test_def search_Alt)

section \<open>The heuristic fallbacks\<close>

lemma if_pts: "(if b then s + n else s) = s + pts b n"
  by (simp add: pts_def)

lemma if_pts2:
  "(if p then s + 20 else if q then s + 10 else s) = s + pts p 20 + pts (q \<and> \<not> p) 10"
  by (simp add: pts_def)

lemma pts_const: "pts True n = n" "pts False n = 0"
  by (simp_all add: pts_def)

lemma pts_range: "0 \<le> n \<Longrightarrow> 0 \<le> pts b n \<and> pts b n \<le> n"
  by (simp add: pts_def)

lemma rubric_sum_range:
  fixes a b c d e f g h :: int
  assumes "0 \<le> a \<and> a \<le> 20" "0 \<le> b \<and> b \<le> 10" "0 \<le> c \<and> c \<le> 15" "0 \<le> d \<and> d \<le> 15"
    "0 \<le> e \<and> e \<le> 10" "0 \<le> f \<and> f \<le> 10" "0 \<le> g \<and> g \<le> 10" "0 \<le> h \<and> h \<le> 10"
  shows "0 \<le> a + b + c + d + e + f + g + h \<and> a + b + c + d + e + f + g + h \<le> 100"
  using assms by linarith

lemma calculateBasicReadmeScore_min:
  "calculateBasicReadmeScore c =
     min (pts (500 < length c) 20 + pts (1500 < length c) 10
          + pts (mentions c ''installation'') 15
          + pts (mentions c ''usage'') 15
          + pts (mentions c ''example'') 10
          + pts (mentions c ''api'' \<or> mentions c ''reference'') 10
          + pts (mentions c ''contributing'') 10
          + pts (mentions c ''license'') 10) 100"
  unfolding calculateBasicReadmeScore_def Let_def if_pts regex_test_Alt regex_test_Lit_i
  by simp

lemma calculateBasicReadmeScore_range:
  "0 \<le> pts (500 < length c) 20 + pts (1500 < length c) 10
          + pts (mentions c ''installation'') 15
          + pts (mentions c ''usage'') 15
          + pts (mentions c ''example'') 10
          + pts (mentions c ''api'' \<or> mentions c ''reference'') 10
          + pts (mentions c ''contributing'') 10
          + pts (mentions c ''license'') 10
   \<and> pts (500 < length c) 20 + pts (1500 < length c) 10
          + pts (mentions c ''installation'') 15
          + pts (mentions c ''usage'') 15
          + pts (mentions c ''example'') 10
          + pts (mentions c ''api'' \<or> mentions c ''reference'') 10
          + pts (mentions c ''contributing'') 10
          + pts (mentions c ''license'') 10 \<le> 100"
  by (rule rubric_sum_range) (simp_all add: pts_range)

text \<open>The rubric of the analyzer's fallback; its points add up to 100, so the cap is never reached from above.\<close>

lemma calculateBasicReadmeScore_sum:
  "calculateBasicReadmeScore c =
     pts (500 < length c) 20 + pts (1500 < length c) 10
     + pts (mentions c ''installation'') 15
     + pts (mentions c ''usage'') 15
     + pts (mentions c ''example'') 10
     + pts (mentions c ''api'' \<or> mentions c ''reference'') 10
     + pts (mentions c ''contributing'') 10
     + pts (mentions c ''license'') 10"
  unfolding calculateBasicReadmeScore_min
  using calculateBasicReadmeScore_range[of c] by simp

lemma calculateBasicReadmeScore_bounds:
  "0 \<le> calculateBasicReadmeScore c \<and> calculateBasicReadmeScore c \<le> 100"
  unfolding calculateBasicReadmeScore_sum by (rule calculateBasicReadmeScore_range)

lemma calculateReadmeQuality_min:
  "c \<noteq> [] \<Longrightarrow> calculateReadmeQuality (Some c) =
     min (pts (500 \<le> length c) 20 + pts (200 \<le> length c \<and> length c < 500) 10
          + pts (hasTitle c) 10
          + pts (100 < length c) 10
          + pts (hasInstallationSection c) 15
          + pts (hasUsageSection c) 15
          + pts (hasCodeExamples c) 10
          + pts (hasLinks c) 10
          + pts (hasBadges c) 10) 100"
  unfolding calculateReadmeQuality_def Let_def if_pts if_pts2
  by (simp add: not_le pts_const)

lemma length_points_range:
  "0 \<le> pts (500 \<le> n) 20 + pts (200 \<le> n \<and> n < (500::nat)) 10
   \<and> pts (500 \<le> n) 20 + pts (200 \<le> n \<and> n < 500) 10 \<le> 20"
  by (simp add: pts_def)

lemma calculateReadmeQuality_range:
  "0 \<le> pts (500 \<le> length c) 20 + pts (200 \<le> length c \<and> length c < 500) 10
          + pts (hasTitle c) 10
          + pts (100 < length c) 10
          + pts (hasInstallationSection c) 15
          + pts (hasUsageSection c) 15
          + pts (hasCodeExamples c) 10
          + pts (hasLinks c) 10
          + pts (hasBadges c) 10
   \<and> pts (500 \<le> length c) 20 + pts (200 \<le> length c \<and> length c < 500) 10
          + pts (hasTitle c) 10
          + pts (100 < length c) 10
          + pts (hasInstallationSection c) 15
          + pts (hasUsageSection c) 15
          + pts (hasCodeExamples c) 10
          + pts (hasLinks c) 10
          + pts (hasBadges c) 10 \<le> 100"
  using rubric_sum_range[of "pts (500 \<le> length c) 20 + pts (200 \<le> length c \<and> length c < 500) 10"
      "pts (hasTitle c) 10" "pts (hasInstallationSection c) 15" "pts (hasUsageSection c) 15"
      "pts (100 < length c) 10" "pts (hasCodeExamples c) 10" "pts (hasLinks c) 10"
      "pts (hasBadges c) 10"]
    length_points_range[of "length c"]
  by (simp add: pts_range)

text \<open>The rubric of the documentation analyzer's scorer.\<close>

lemma calculateReadmeQuality_sum:
  "calculateReadmeQuality (Some c) =
     (if c = [] then 0
      else pts (500 \<le> length c) 20 + pts (200 \<le> length c \<and> length c < 500) 10
           + pts (hasTitle c) 10
           + pts (100 < length c) 10
           + pts (hasInstallationSection c) 15
           + pts (hasUsageSection c) 15
           + pts (hasCodeExamples c) 10
           + pts (hasLinks c) 10
           + pts (hasBadges c) 10)"
proof (cases "c = []")
  case True
  then show ?thesis by (simp add: calculateReadmeQuality_def)
next
  case False
  then show ?thesis
    unfolding calculateReadmeQuality_min[OF False]
    using calculateReadmeQuality_range[of c] by simp
qed

lemma calculateReadmeQuality_bounds:
  "0 \<le> calculateReadmeQuality oc \<and> calculateReadmeQuality oc \<le> 100"
proof (cases oc)
  case None
  then show ?thesis by (simp add: calculateReadmeQuality_def)
next
  case (Some c)
  show ?thesis
    unfolding Some calculateReadmeQuality_sum
    using calculateReadmeQuality_range[of c] by simp
qed

lemma generateBasicRoadmap_closed:
  "generateBasicRoadmap now context =
     (if \<not> hasTests context then [''Immediate: Add automated testing (Jest/Mocha)''] else [])
     @ (if \<not> hasCICD context then [''Immediate: Set up CI/CD with GitHub Actions''] else [])
     @ (if update_overdue now context
        then [''Short-term: Update dependencies to latest versions''] else [])
     @ [''Long-term: Implement comprehensive documentation'',
        ''Long-term: Increase test coverage to 80%+'']"
  by (simp add: generateBasicRoadmap_def update_overdue_def daysSinceUpdate_def Let_def
      split: option.splits)

section \<open>The analysis operations\<close>

lemma get_prop_total: "\<not> nullish res \<Longrightarrow> \<exists>v. get_prop res k = Inr v"
  by (cases res) auto

lemma get_prop_nullish: "nullish res \<Longrightarrow> \<exists>e. get_prop res k = Inl e"
  by (cases res) auto

text \<open>What \<open>analyzeReadme\<close> returns when the adapter call or the parse raises.\<close>

lemma analyzeReadme_call_fails:
  assumes "aiProvider this = Some ai"
    and "analyze rt ai (readme_request c) = Inl e"
  shows "analyzeReadme rt this c =
           Inr \<lparr>qualityScore = JNum (of_int (calculateBasicReadmeScore c)), suggestions = JArr []\<rparr>"
  using assms
  by (simp add: analyzeReadme_def readme_request_def bind_result_def try_catch_def)

lemma analyzeReadme_parse_fails:
  assumes "aiProvider this = Some ai"
    and "analyze rt ai (readme_request c) = Inr response"
    and "JSON_parse rt (result response) = Inl e"
  shows "analyzeReadme rt this c =
           Inr \<lparr>qualityScore = JNum (of_int (calculateBasicReadmeScore c)), suggestions = JArr []\<rparr>"
  using assms
  by (simp add: analyzeReadme_def readme_request_def bind_result_def try_catch_def)

subsection \<open>Values of the examples\<close>

lemma score_license_usage: "calculateBasicReadmeScore ''license usage'' = 25"
  by code_simp

lemma quality_test_readme:
  "calculateReadmeQuality (Some ''# Test README\<newline>\<newline>Some content here.'') = 10"
  by code_simp

lemma quality_short: "calculateReadmeQuality (Some ''a'') = 0"
  by code_simp

lemma quality_101: "calculateReadmeQuality (Some (replicate 101 CHR ''a'')) = 10"
  by code_simp

lemma conditions_101:
  "spec_readme_conditions (replicate 101 CHR ''a'') = spec_readme_conditions ''a''"
  by code_simp

section \<open>Claims about the analyzer\<close>

text \<open>
  C1, as stated: with no adapter configured, none of code-quality insight, security scan
  and roadmap raises. The code-quality operation does raise: it has the same guard as
  the README analysis.
\<close>

theorem analyzeCodeQuality_unconfigured_raises:
  "AIAnalyzer_new None = Inr analyzer_unconfigured
   \<and> aiProvider analyzer_unconfigured = None
   \<and> analyzeCodeQuality runtime_down analyzer_unconfigured []
       = Inl (Error ''AI provider not configured'')"
  by (simp add: AIAnalyzer_new_def analyzer_unconfigured_def analyzeCodeQuality_def)

text \<open>
  C1, amended: with no adapter configured, the security scan returns the empty list and
  the roadmap operation returns its heuristic result, neither raising; the code-quality
  operation and the README analysis are both gated on configuration and raise
  "AI provider not configured".
\<close>

theorem unconfigured_operations:
  assumes "aiProvider this = None"
  shows "analyzeSecurityConcerns rt this codeSnippets = Inr []
    \<and> generateModernizationRoadmap rt this context
        = Inr (map JStr (generateBasicRoadmap (Date_now rt) context))
    \<and> analyzeCodeQuality rt this files = Inl (Error ''AI provider not configured'')
    \<and> analyzeReadme rt this readmeContent = Inl (Error ''AI provider not configured'')"
  using assms
  by (simp add: analyzeSecurityConcerns_def analyzeReadme_def analyzeCodeQuality_def
      generateModernizationRoadmap_def)

theorem unconfigured_operations_witness:
  "aiProvider analyzer_unconfigured = None
   \<and> analyzeSecurityConcerns runtime_down analyzer_unconfigured [''eval(input)''] = Inr []
   \<and> generateModernizationRoadmap runtime_down analyzer_unconfigured context_bare
       = Inr [JStr ''Immediate: Add automated testing (Jest/Mocha)'',
              JStr ''Immediate: Set up CI/CD with GitHub Actions'',
              JStr ''Long-term: Implement comprehensive documentation'',
              JStr ''Long-term: Increase test coverage to 80%+'']
   \<and> analyzeCodeQuality runtime_down analyzer_unconfigured [(''a.ts'', ''let a = 1'')]
       = Inl (Error ''AI provider not configured'')
   \<and> analyzeReadme runtime_down analyzer_unconfigured ''# Title''
       = Inl (Error ''AI provider not configured'')"
proof -
  have n: "aiProvider analyzer_unconfigured = None"
    by (simp add: analyzer_unconfigured_def)
  have r: "generateBasicRoadmap (Date_now runtime_down) context_bare
           = [''Immediate: Add automated testing (Jest/Mocha)'',
              ''Immediate: Set up CI/CD with GitHub Actions'',
              ''Long-term: Implement comprehensive documentation'',
              ''Long-term: Increase test coverage to 80%+'']"
    by (simp add: generateBasicRoadmap_closed update_overdue_def context_bare_def
        runtime_down_def)
  show ?thesis
    using unconfigured_operations[OF n, of runtime_down "[''eval(input)'']" context_bare
        "[(''a.ts'', ''let a = 1'')]" "''# Title''"] n r
    by simp
qed

text \<open>
  C3, as stated: on an analyzer with no adapter \<open>generateModernizationRoadmap\<close> returns
  a non-empty deterministic list. The list is not determined by the call: the same
  unconfigured analyzer and the same context give a list of two items at one clock
  reading and a list of three items 200 days later.
\<close>

theorem unconfigured_roadmap_depends_on_clock:
  "AIAnalyzer_new None = Inr analyzer_unconfigured
   \<and> generateModernizationRoadmap runtime_down analyzer_unconfigured context_old
       = Inr [JStr ''Long-term: Implement comprehensive documentation'',
              JStr ''Long-term: Increase test coverage to 80%+'']
   \<and> generateModernizationRoadmap (runtime_down\<lparr>Date_now := 200 * 86400000\<rparr>)
        analyzer_unconfigured context_old
       = Inr [JStr ''Short-term: Update dependencies to latest versions'',
              JStr ''Long-term: Implement comprehensive documentation'',
              JStr ''Long-term: Increase test coverage to 80%+'']"
  by (simp add: AIAnalyzer_new_def analyzer_unconfigured_def generateModernizationRoadmap_def
      generateBasicRoadmap_closed update_overdue_def context_old_def runtime_down_def)

text \<open>
  C3, amended: on an analyzer with no adapter \<open>isAIAvailable\<close> is false, \<open>analyzeReadme\<close>
  fails with a message that contains "AI provider not configured", and
  \<open>generateModernizationRoadmap\<close> returns a non-empty list instead of failing: the
  heuristic roadmap, which the context determines together with the clock reading
  \<open>Date.now()\<close>. Two calls with the same context return the same list whenever their
  clock readings are on the same side of the 180-day threshold.
\<close>

theorem no_adapter_behaviour:
  assumes "aiProvider this = None"
  shows "isAIAvailable this = False
    \<and> (\<exists>e. analyzeReadme rt this readmeContent = Inl e
           \<and> includes_str (message e) ''AI provider not configured'')
    \<and> (\<exists>items. generateModernizationRoadmap rt this context = Inr items \<and> items \<noteq> []
           \<and> items = map JStr (generateBasicRoadmap (Date_now rt) context))
    \<and> (update_overdue (Date_now rt) context = update_overdue (Date_now rt') context \<longrightarrow>
         generateModernizationRoadmap rt this context
           = generateModernizationRoadmap rt' this context)"
  using assms
  by (simp add: isAIAvailable_def analyzeReadme_def generateModernizationRoadmap_def
      generateBasicRoadmap_closed)

theorem no_adapter_behaviour_witness:
  "AIAnalyzer_new None = Inr analyzer_unconfigured
   \<and> aiProvider analyzer_unconfigured = None
   \<and> isAIAvailable analyzer_unconfigured = False
   \<and> analyzeReadme runtime_down analyzer_unconfigured ''test''
       = Inl (Error ''AI provider not configured'')
   \<and> generateModernizationRoadmap runtime_down analyzer_unconfigured context_old
       = Inr [JStr ''Long-term: Implement comprehensive documentation'',
              JStr ''Long-term: Increase test coverage to 80%+'']
   \<and> update_overdue (Date_now runtime_down) context_old
       = update_overdue (Date_now (runtime_down\<lparr>Date_now := 100 * 86400000\<rparr>)) context_old
   \<and> generateModernizationRoadmap (runtime_down\<lparr>Date_now := 100 * 86400000\<rparr>)
        analyzer_unconfigured context_old
       = Inr [JStr ''Long-term: Implement comprehensive documentation'',
              JStr ''Long-term: Increase test coverage to 80%+'']"
proof -
  let ?later = "runtime_down\<lparr>Date_now := 100 * 86400000\<rparr>"
  have n: "aiProvider analyzer_unconfigured = None"
    by (simp add: analyzer_unconfigured_def)
  have c: "AIAnalyzer_new None = Inr analyzer_unconfigured"
    by (simp add: AIAnalyzer_new_def analyzer_unconfigured_def)
  have r: "generateBasicRoadmap (Date_now runtime_down) context_old
           = [''Long-term: Implement comprehensive documentation'',
              ''Long-term: Increase test coverage to 80%+'']"
    by (simp add: generateBasicRoadmap_closed update_overdue_def context_old_def
        runtime_down_def)
  have a: "analyzeReadme runtime_down analyzer_unconfigured ''test''
           = Inl (Error ''AI provider not configured'')"
    by (simp add: analyzeReadme_def n)
  have u: "update_overdue (Date_now runtime_down) context_old
           = update_overdue (Date_now ?later) context_old"
    by (simp add: runtime_down_def update_overdue_def context_old_def)
  note t = no_adapter_behaviour[OF n, of runtime_down "''test''" context_old ?later]
  have i: "isAIAvailable analyzer_unconfigured = False"
    using t by blast
  have g: "generateModernizationRoadmap runtime_down analyzer_unconfigured context_old
           = Inr [JStr ''Long-term: Implement comprehensive documentation'',
                  JStr ''Long-term: Increase test coverage to 80%+'']"
    using t r by auto
  have e: "generateModernizationRoadmap runtime_down analyzer_unconfigured context_old
           = generateModernizationRoadmap ?later analyzer_unconfigured context_old"
    using t u by blast
  have g': "generateModernizationRoadmap ?later analyzer_unconfigured context_old
           = Inr [JStr ''Long-term: Implement comprehensive documentation'',
                  JStr ''Long-term: Increase test coverage to 80%+'']"
    using g e by simp
  show ?thesis
    using n c i a g u g' by blast
qed

text \<open>
  C4. The heuristic roadmap is, in this order: the testing suggestion if and only if
  \<open>hasTests\<close> is false, the CI/CD suggestion if and only if \<open>hasCICD\<close> is false, the
  dependency-update suggestion if and only if the days since \<open>lastUpdate\<close> exceed 180,
  and then the two long-term suggestions, so it has at least two items.
\<close>

theorem generateBasicRoadmap_items:
  "generateBasicRoadmap now context =
     (if \<not> hasTests context then [''Immediate: Add automated testing (Jest/Mocha)''] else [])
     @ (if \<not> hasCICD context then [''Immediate: Set up CI/CD with GitHub Actions''] else [])
     @ (if update_overdue now context
        then [''Short-term: Update dependencies to latest versions''] else [])
     @ [''Long-term: Implement comprehensive documentation'',
        ''Long-term: Increase test coverage to 80%+'']
   \<and> (''Immediate: Add automated testing (Jest/Mocha)'' \<in> set (generateBasicRoadmap now context)
        \<longleftrightarrow> \<not> hasTests context)
   \<and> (''Immediate: Set up CI/CD with GitHub Actions'' \<in> set (generateBasicRoadmap now context)
        \<longleftrightarrow> \<not> hasCICD context)
   \<and> (''Short-term: Update dependencies to latest versions''
          \<in> set (generateBasicRoadmap now context)
        \<longleftrightarrow> (\<exists>t. lastUpdate context = Some t \<and> (now - t) div (1000 * 60 * 60 * 24) > 180))
   \<and> 2 \<le> length (generateBasicRoadmap now context)"
  unfolding generateBasicRoadmap_closed
  by (simp add: update_overdue_def split: option.splits)

theorem generateBasicRoadmap_items_witness:
  "generateBasicRoadmap (200 * 86400000) context_bare
     = [''Immediate: Add automated testing (Jest/Mocha)'',
        ''Immediate: Set up CI/CD with GitHub Actions'',
        ''Short-term: Update dependencies to latest versions'',
        ''Long-term: Implement comprehensive documentation'',
        ''Long-term: Increase test coverage to 80%+'']
   \<and> generateBasicRoadmap (180 * 86400000 + 86399999) context_old
     = [''Long-term: Implement comprehensive documentation'',
        ''Long-term: Increase test coverage to 80%+'']"
  using generateBasicRoadmap_items[of "200 * 86400000" context_bare]
    generateBasicRoadmap_items[of "180 * 86400000 + 86399999" context_old]
  by (simp add: update_overdue_def context_bare_def context_old_def)

text \<open>
  C5, as stated: two invocations of the basic roadmap generator with identical arguments
  return identical results. The generator reads the clock: the same context gives two
  different lists at two clock readings.
\<close>

theorem generateBasicRoadmap_depends_on_clock:
  "generateBasicRoadmap 0 context_old
     = [''Long-term: Implement comprehensive documentation'',
        ''Long-term: Increase test coverage to 80%+'']
   \<and> generateBasicRoadmap (200 * 86400000) context_old
     = [''Short-term: Update dependencies to latest versions'',
        ''Long-term: Implement comprehensive documentation'',
        ''Long-term: Increase test coverage to 80%+'']"
  by (simp add: generateBasicRoadmap_def context_old_def daysSinceUpdate_def)

text \<open>
  C5, amended: the basic README scorer is a function of its argument alone, with a
  score between 0 and 100; the basic roadmap generator always returns a list (of at
  least two items), which its argument and the clock reading \<open>Date.now()\<close> determine:
  two invocations with identical arguments return identical results whenever their
  clock readings are on the same side of the 180-day threshold.
\<close>

theorem fallbacks_bounded_and_clocked:
  "0 \<le> calculateBasicReadmeScore content \<and> calculateBasicReadmeScore content \<le> 100
   \<and> 2 \<le> length (generateBasicRoadmap now1 context)
   \<and> (update_overdue now1 context = update_overdue now2 context
        \<longrightarrow> generateBasicRoadmap now1 context = generateBasicRoadmap now2 context)"
  using calculateBasicReadmeScore_bounds[of content]
  by (simp add: generateBasicRoadmap_closed)

theorem fallbacks_bounded_and_clocked_witness:
  "update_overdue (200 * 86400000) context_old = update_overdue (300 * 86400000) context_old
   \<and> generateBasicRoadmap (200 * 86400000) context_old
       = generateBasicRoadmap (300 * 86400000) context_old
   \<and> 0 \<le> calculateBasicReadmeScore ''license'' \<and> calculateBasicReadmeScore ''license'' \<le> 100"
proof -
  have u: "update_overdue (200 * 86400000) context_old
           = update_overdue (300 * 86400000) context_old"
    by (simp add: update_overdue_def context_old_def)
  show ?thesis
    using fallbacks_bounded_and_clocked[of "''license''" "200 * 86400000" context_old
        "300 * 86400000"] u
    by simp
qed

text \<open>
  C2, as stated: the README fallback score is computed from exactly the conditions that
  the specification lists. The score that the system produces when AI is unavailable is
  not a function of those conditions: the scorer has a third length threshold, at more
  than 100 characters, and two texts that agree on every listed condition get 10 and 0.
\<close>

theorem readme_score_not_from_spec_conditions:
  "spec_readme_conditions (replicate 101 CHR ''a'') = spec_readme_conditions ''a''
   \<and> calculateReadmeQuality (Some (replicate 101 CHR ''a'')) = 10
   \<and> calculateReadmeQuality (Some ''a'') = 0
   \<and> analyze_readmeQuality runtime_down \<lparr>aiAnalyzer = None\<rparr> (Some (replicate 101 CHR ''a''))
       = JNum 10
   \<and> analyze_readmeQuality runtime_down \<lparr>aiAnalyzer = None\<rparr> (Some ''a'') = JNum 0"
  by (simp add: analyze_readmeQuality_def conditions_101 quality_101 quality_short)

text \<open>
  C2, amended: when AI is unavailable (no AI analyzer, or one without an adapter), the
  heuristic README score is 0 for a missing or empty README and otherwise the sum of
  20 points for at least 500 characters or else 10 for at least 200, 10 for a top-level
  heading, 10 for more than 100 characters, 15 for an installation or setup section, 15
  for a usage, example or quick-start section, 10 for a fenced code block, 10 for a
  hyperlink and 10 for a badge image, capped at 100. (The score after a failed AI call
  or parse is not part of this statement.)
\<close>

theorem readme_fallback_scores:
  "calculateReadmeQuality None = 0
   \<and> calculateReadmeQuality (Some c) =
       (if c = [] then 0
        else pts (500 \<le> length c) 20 + pts (200 \<le> length c \<and> length c < 500) 10
             + pts (hasTitle c) 10
             + pts (100 < length c) 10
             + pts (hasInstallationSection c) 15
             + pts (hasUsageSection c) 15
             + pts (hasCodeExamples c) 10
             + pts (hasLinks c) 10
             + pts (hasBadges c) 10)
   \<and> 0 \<le> calculateReadmeQuality oc \<and> calculateReadmeQuality oc \<le> 100
   \<and> (aiAnalyzer d = None \<or> (\<exists>a. aiAnalyzer d = Some a \<and> \<not> isAIAvailable a) \<longrightarrow>
        analyze_readmeQuality rt d oc = JNum (of_int (calculateReadmeQuality oc)))
   \<and> (oc = None \<or> oc = Some [] \<longrightarrow> analyze_readmeQuality rt d oc = JNum 0)"
proof -
  have none: "calculateReadmeQuality None = 0"
    by (simp add: calculateReadmeQuality_def)
  have unavailable:
    "aiAnalyzer d = None \<or> (\<exists>a. aiAnalyzer d = Some a \<and> \<not> isAIAvailable a) \<longrightarrow>
        analyze_readmeQuality rt d oc = JNum (of_int (calculateReadmeQuality oc))"
    by (auto simp add: analyze_readmeQuality_def split: option.splits)
  have missing: "oc = None \<or> oc = Some [] \<longrightarrow> analyze_readmeQuality rt d oc = JNum 0"
    by (auto simp add: analyze_readmeQuality_def calculateReadmeQuality_def
        split: option.splits)
  show ?thesis
    using none calculateReadmeQuality_sum[of c] calculateReadmeQuality_bounds[of oc]
      unavailable missing
    by (intro conjI) simp_all
qed

theorem readme_fallback_scores_witness:
  "aiAnalyzer \<lparr>aiAnalyzer = None\<rparr> = None
   \<and> analyze_readmeQuality runtime_down \<lparr>aiAnalyzer = None\<rparr>
        (Some ''# Test README\<newline>\<newline>Some content here.'') = JNum 10
   \<and> aiAnalyzer \<lparr>aiAnalyzer = Some analyzer_unconfigured\<rparr> = Some analyzer_unconfigured
   \<and> \<not> isAIAvailable analyzer_unconfigured
   \<and> analyze_readmeQuality runtime_down \<lparr>aiAnalyzer = Some analyzer_unconfigured\<rparr>
        (Some ''# Test README\<newline>\<newline>Some content here.'') = JNum 10
   \<and> analyze_readmeQuality runtime_down \<lparr>aiAnalyzer = Some analyzer_openai\<rparr> (Some [])
       = JNum 0"
proof -
  let ?c = "''# Test README\<newline>\<newline>Some content here.''"
  have u: "\<not> isAIAvailable analyzer_unconfigured"
    by (simp add: isAIAvailable_def analyzer_unconfigured_def)
  show ?thesis
    using readme_fallback_scores[of ?c "Some ?c" "\<lparr>aiAnalyzer = None\<rparr>" runtime_down]
      readme_fallback_scores[of ?c "Some ?c" "\<lparr>aiAnalyzer = Some analyzer_unconfigured\<rparr>"
        runtime_down]
      readme_fallback_scores[of ?c "Some []" "\<lparr>aiAnalyzer = Some analyzer_openai\<rparr>"
        runtime_down] u
    by (simp add: quality_test_readme)
qed

text \<open>
  C10, as stated: whenever the adapter call succeeds and the response text parses as
  JSON, the score is the parsed \<open>score\<close> field or 50, and the heuristic scorer is not
  consulted. The text \<open>null\<close> parses as JSON; reading a field of \<open>null\<close> raises, and
  the result is the heuristic score (25 here), not 50.
\<close>

theorem analyzeReadme_null_answer:
  "aiProvider analyzer_openai = Some (OpenAIProvider ''test-key'' None)
   \<and> analyze (runtime_answering ''null'') (OpenAIProvider ''test-key'' None)
        (readme_request ''license usage'') = Inr (response_of ''null'')
   \<and> JSON_parse (runtime_answering ''null'') (result (response_of ''null'')) = Inr JNull
   \<and> analyzeReadme (runtime_answering ''null'') analyzer_openai ''license usage''
       = Inr \<lparr>qualityScore = JNum 25, suggestions = JArr []\<rparr>
   \<and> calculateBasicReadmeScore ''license usage'' = 25"
  by (simp add: score_license_usage analyzeReadme_def runtime_answering_def analyzer_openai_def
      response_of_def JSON_parse_examples_def bind_result_def try_catch_def)

text \<open>
  C10, amended: when the adapter call succeeds and the response text parses as a JSON
  value other than \<open>null\<close>, the returned \<open>qualityScore\<close> is the parsed \<open>score\<close> field when
  that field is truthy and 50 when it is absent, \<open>null\<close> or 0, and \<open>suggestions\<close> is the
  parsed field, the empty list when it is absent; the heuristic scorer is not consulted.
\<close>

theorem analyzeReadme_parsed:
  assumes "aiProvider this = Some ai"
    and "analyze rt ai (readme_request readmeContent) = Inr response"
    and "JSON_parse rt (result response) = Inr res"
    and "\<not> nullish res"
  shows "\<exists>score sugg.
           get_prop res ''score'' = Inr score \<and> get_prop res ''suggestions'' = Inr sugg
           \<and> analyzeReadme rt this readmeContent =
               Inr \<lparr>qualityScore = (if truthy score then score else JNum 50),
                    suggestions = (if truthy sugg then sugg else JArr [])\<rparr>
           \<and> (score = JUndefined \<or> score = JNull \<or> score = JNum 0 \<longrightarrow>
                analyzeReadme rt this readmeContent =
                  Inr \<lparr>qualityScore = JNum 50,
                       suggestions = (if truthy sugg then sugg else JArr [])\<rparr>)
           \<and> (sugg = JUndefined \<longrightarrow>
                analyzeReadme rt this readmeContent =
                  Inr \<lparr>qualityScore = (if truthy score then score else JNum 50),
                       suggestions = JArr []\<rparr>)"
proof -
  obtain score sugg where
    g: "get_prop res ''score'' = Inr score" "get_prop res ''suggestions'' = Inr sugg"
    using get_prop_total[OF assms(4)] by blast
  have r: "analyzeReadme rt this readmeContent =
             Inr \<lparr>qualityScore = (if truthy score then score else JNum 50),
                  suggestions = (if truthy sugg then sugg else JArr [])\<rparr>"
    using assms(1-3) g
    by (simp add: analyzeReadme_def readme_request_def bind_result_def try_catch_def js_or_def)
  show ?thesis
    using g r by auto
qed

theorem analyzeReadme_parsed_witness:
  \<open>aiProvider analyzer_openai = Some (OpenAIProvider ''test-key'' None)
   \<and> \<not> nullish (JObj [(''score'', JNum 0)])
   \<and> analyzeReadme (runtime_answering ''{"score": 0}'') analyzer_openai ''license usage''
       = Inr \<lparr>qualityScore = JNum 50, suggestions = JArr []\<rparr>
   \<and> analyzeReadme (runtime_answering ''{}'') analyzer_openai ''license usage''
       = Inr \<lparr>qualityScore = JNum 50, suggestions = JArr []\<rparr>
   \<and> analyzeReadme
        (runtime_answering ''{"score": 85, "suggestions": ["Add usage examples"]}'')
        analyzer_openai ''license usage''
       = Inr \<lparr>qualityScore = JNum 85, suggestions = JArr [JStr ''Add usage examples'']\<rparr>\<close>
proof -
  let ?ai = "OpenAIProvider ''test-key'' None"
  let ?t0 = \<open>''{"score": 0}''\<close>
  let ?t85 = \<open>''{"score": 85, "suggestions": ["Add usage examples"]}''\<close>
  have p: "aiProvider analyzer_openai = Some ?ai"
    by (simp add: analyzer_openai_def)
  have a: "\<And>text. analyze (runtime_answering text) ?ai (readme_request ''license usage'')
             = Inr (response_of text)"
    by (simp add: runtime_answering_def)
  have j0: "JSON_parse (runtime_answering ?t0) (result (response_of ?t0))
            = Inr (JObj [(''score'', JNum 0)])"
    by (simp add: runtime_answering_def response_of_def JSON_parse_examples_def)
  have je: "JSON_parse (runtime_answering ''{}'') (result (response_of ''{}'')) = Inr (JObj [])"
    by (simp add: runtime_answering_def response_of_def JSON_parse_examples_def)
  have j85: "JSON_parse (runtime_answering ?t85) (result (response_of ?t85))
            = Inr (JObj [(''score'', JNum 85),
                         (''suggestions'', JArr [JStr ''Add usage examples''])])"
    by (simp add: runtime_answering_def response_of_def JSON_parse_examples_def)
  show ?thesis
    using analyzeReadme_parsed[OF p a j0] analyzeReadme_parsed[OF p a je]
      analyzeReadme_parsed[OF p a j85] p
    by simp
qed

end
